theory Spec2Isabelle
  imports Main "HOL-Library.Sublist"
begin

section \<open>JavaScript values\<close>

text \<open>
  The values the client handles are the results of \<^verbatim>\<open>response.json()\<close> and of property
  reads on them. A number is an \<^typ>\<open>int\<close>, which stands for the double of that value:
  the code tests numbers for zero, copies them and prints page numbers into a query string,
  and does no arithmetic on them. An object is the list of its own properties; reading a
  property that is absent gives \<^verbatim>\<open>undefined\<close>.
\<close>

datatype jsval =
    JUndefined
  | JNull
  | JBool bool
  | JNum int
  | JStr string
  | JArr "jsval list"
  | JObj "(string \<times> jsval) list"

text \<open>
  What a rejected promise or a \<^verbatim>\<open>throw\<close> carries: \<^verbatim>\<open>new Error(msg)\<close>, a
  \<^verbatim>\<open>TypeError\<close> (a property read on \<^verbatim>\<open>null\<close> or \<^verbatim>\<open>undefined\<close>, a failed fetch), a
  \<^verbatim>\<open>SyntaxError\<close> (a body that is not JSON), or a value that is no instance of
  \<^verbatim>\<open>Error\<close>.
\<close>

datatype err = Error string | TypeError | SyntaxError | NonError

fun instanceofError :: "err \<Rightarrow> bool" where
  "instanceofError NonError = False"
| "instanceofError _ = True"

fun truthy :: "jsval \<Rightarrow> bool" where
  "truthy JUndefined = False"
| "truthy JNull = False"
| "truthy (JBool b) = b"
| "truthy (JNum n) = (n \<noteq> 0)"
| "truthy (JStr s) = (s \<noteq> [])"
| "truthy (JArr xs) = True"
| "truthy (JObj kvs) = True"

text \<open>
  \<^verbatim>\<open>a || b\<close> where evaluating \<open>b\<close> cannot throw. Where the right operand is a property
  read, the operator is written out with \<open>if\<close>, so that the read happens only when the
  left operand is falsy.
\<close>

definition js_or :: "jsval \<Rightarrow> jsval \<Rightarrow> jsval" where
  "js_or a b = (if truthy a then a else b)"

text \<open>
  \<^verbatim>\<open>v.k\<close>: a \<^verbatim>\<open>TypeError\<close> on \<^verbatim>\<open>null\<close> and \<^verbatim>\<open>undefined\<close>; an own property of an
  object; \<^verbatim>\<open>length\<close> of an array or a string; \<^verbatim>\<open>undefined\<close> otherwise. None of the
  property names the client reads is inherited from a prototype, apart from \<^verbatim>\<open>length\<close>.
  The length of a string is its number of characters, as JavaScript counts it for ASCII text.
\<close>

fun getProp :: "jsval \<Rightarrow> string \<Rightarrow> err + jsval" where
  "getProp JUndefined k = Inl TypeError"
| "getProp JNull k = Inl TypeError"
| "getProp (JObj kvs) k = Inr (case map_of kvs k of None \<Rightarrow> JUndefined | Some v \<Rightarrow> v)"
| "getProp (JArr xs) k = Inr (if k = ''length'' then JNum (int (length xs)) else JUndefined)"
| "getProp (JStr s) k = Inr (if k = ''length'' then JNum (int (length s)) else JUndefined)"
| "getProp (JBool b) k = Inr JUndefined"
| "getProp (JNum n) k = Inr JUndefined"

fun isArray :: "jsval \<Rightarrow> bool" where
  "isArray (JArr xs) = True"
| "isArray _ = False"

subsection \<open>Printing numbers and values\<close>

definition digit_char :: "nat \<Rightarrow> char" where
  "digit_char d = char_of (48 + d)"

fun nat_to_string :: "nat \<Rightarrow> string" where
  "nat_to_string n =
     (if n < 10 then [digit_char n] else nat_to_string (n div 10) @ [digit_char (n mod 10)])"

declare nat_to_string.simps [simp del]

text \<open>
  The text of a number in a template literal or in storage. For an integer in the safe
  range, from \<open>- (2^53 - 1)\<close> to \<open>2^53 - 1\<close>, it is the decimal digits with a minus sign
  for a negative number. Beyond that range JavaScript prints a double with rounded digits
  or in exponent notation (\<^verbatim>\<open>1e21\<close> prints as \<^verbatim>\<open>1e+21\<close>); the model leaves that text
  open.
\<close>

definition MAX_SAFE_INTEGER :: int where
  "MAX_SAFE_INTEGER = 9007199254740991"

definition num_to_string :: "int \<Rightarrow> string" where
  "num_to_string i =
     (if \<bar>i\<bar> \<le> MAX_SAFE_INTEGER
      then (if i < 0 then CHR ''-'' # nat_to_string (nat (- i)) else nat_to_string (nat i))
      else undefined i)"

fun join_comma :: "string list \<Rightarrow> string" where
  "join_comma [] = []"
| "join_comma [s] = s"
| "join_comma (s # t # ss) = s @ '','' @ join_comma (t # ss)"

text \<open>
  The string a value is converted to when it is stored or printed: an array prints its
  elements separated by commas, with \<^verbatim>\<open>null\<close> and \<^verbatim>\<open>undefined\<close> elements empty.
\<close>

fun js_toString :: "jsval \<Rightarrow> string" where
  "js_toString JUndefined = ''undefined''"
| "js_toString JNull = ''null''"
| "js_toString (JBool b) = (if b then ''true'' else ''false'')"
| "js_toString (JNum n) = num_to_string n"
| "js_toString (JStr s) = s"
| "js_toString (JArr xs) =
     join_comma (map (\<lambda>x. if x = JUndefined \<or> x = JNull then [] else js_toString x) xs)"
| "js_toString (JObj kvs) = ''[object Object]''"

section \<open>Requests, responses and the browser state\<close>

record File =
  file_name :: string
  file_type :: string
  file_size :: nat

datatype form_entry = FileEntry File | TextEntry string

text \<open>
  A request body: the text \<^verbatim>\<open>JSON.stringify(v)\<close>, kept as the value \<open>v\<close> it prints, or a
  \<^verbatim>\<open>FormData\<close> with its entries.
\<close>

datatype req_body = JsonText jsval | FormData "(string \<times> form_entry) list"

fun instanceofFormData :: "req_body option \<Rightarrow> bool" where
  "instanceofFormData (Some (FormData es)) = True"
| "instanceofFormData _ = False"

text \<open>\<^verbatim>\<open>RequestInit\<close>: a field that is \<open>None\<close> is a key the object does not have.\<close>

record request_init =
  req_method :: "string option"
  body :: "req_body option"
  headers :: "(string \<rightharpoonup> string) option"
  credentials :: "string option"

record request =
  url :: string
  init :: request_init

text \<open>
  A response: its status, what \<^verbatim>\<open>response.json()\<close> resolves to (\<open>None\<close> when the body
  is not JSON and the call rejects with a \<^verbatim>\<open>SyntaxError\<close>), and what
  \<^verbatim>\<open>response.text()\<close> resolves to.
\<close>

record response =
  status :: nat
  json_body :: "jsval option"
  text_body :: string

definition ok :: "response \<Rightarrow> bool" where
  "ok r = (200 \<le> status r \<and> status r \<le> 299)"

definition json :: "response \<Rightarrow> err + jsval" where
  "json r = (case json_body r of None \<Rightarrow> Inl SyntaxError | Some v \<Rightarrow> Inr v)"

text \<open>
  The browser state the client reads and writes: \<^verbatim>\<open>localStorage\<close>, and the requests
  handed to \<^verbatim>\<open>fetch\<close> so far, oldest first.
\<close>

record world =
  localStorage :: "string \<rightharpoonup> string"
  requests :: "request list"

text \<open>
  The server and the network: what \<^verbatim>\<open>fetch\<close> settles to for a request, given the
  other requests that have been handed to \<^verbatim>\<open>fetch\<close> by the time it settles. For a
  request that is awaited at once these are the requests made before it. \<open>Inl\<close> is a
  rejected promise.
\<close>

type_synonym network = "request list \<Rightarrow> request \<Rightarrow> err + response"

definition fetch :: "network \<Rightarrow> request \<Rightarrow> world \<Rightarrow> (err + response) \<times> world" where
  "fetch net req w = (net (requests w) req, w\<lparr>requests := requests w @ [req]\<rparr>)"

section \<open>Upload helper\<close>

record validation =
  valid :: bool
  error :: "string option"

definition maxSize :: nat where
  "maxSize = 5 * 1024 * 1024"

definition validateImageFile :: "File \<Rightarrow> validation" where
  "validateImageFile f =
     (if \<not> prefix ''image/'' (file_type f)
      then \<lparr>valid = False, error = Some ''File must be an image''\<rparr>
      else if file_size f > maxSize
      then \<lparr>valid = False, error = Some ''File size must be less than 5MB''\<rparr>
      else \<lparr>valid = True, error = None\<rparr>)"

text \<open>\<^verbatim>\<open>new Error(m)\<close> with \<open>m\<close> possibly \<^verbatim>\<open>undefined\<close>: the message is then empty.\<close>

definition newError :: "string option \<Rightarrow> err" where
  "newError m = Error (case m of None \<Rightarrow> [] | Some s \<Rightarrow> s)"

definition upload_request :: "File \<Rightarrow> request" where
  "upload_request f =
     \<lparr>url = ''/api/upload'',
      init = \<lparr>req_method = Some ''POST'', body = Some (FormData [(''image'', FileEntry f)]),
              headers = None, credentials = None\<rparr>\<rparr>"

text \<open>The body of the \<^verbatim>\<open>try\<close> block of \<^verbatim>\<open>uploadImage\<close>, once \<^verbatim>\<open>fetch\<close> has settled.\<close>

definition upload_result :: "err + response \<Rightarrow> err + jsval" where
  "upload_result settled =
     (case settled of
        Inl e \<Rightarrow> Inl e
      | Inr r \<Rightarrow>
          if \<not> ok r
          then Inl (Error (''Upload failed: '' @ nat_to_string (status r) @ '' '' @ text_body r))
          else (case json r of
                  Inl e \<Rightarrow> Inl e
                | Inr result \<Rightarrow>
                    (case getProp result ''url'' of
                       Inl e \<Rightarrow> Inl e
                     | Inr u \<Rightarrow>
                         if truthy u then Inr u
                         else (case getProp result ''data'' of
                                 Inl e \<Rightarrow> Inl e
                               | Inr d \<Rightarrow>
                                   (case (if d = JNull \<or> d = JUndefined then Inr JUndefined
                                          else getProp d ''url'') of
                                      Inl e \<Rightarrow> Inl e
                                    | Inr imageUrl \<Rightarrow>
                                        if \<not> truthy imageUrl
                                        then Inl (Error ''No image URL returned from server'')
                                        else Inr imageUrl)))))"

definition uploadImage :: "network \<Rightarrow> File \<Rightarrow> world \<Rightarrow> (err + jsval) \<times> world" where
  "uploadImage net f w =
     (let validation = validateImageFile f in
      if \<not> valid validation then (Inl (newError (error validation)), w)
      else
        (let (settled, w') = fetch net (upload_request f) w in
         (case upload_result settled of
            Inl e \<Rightarrow> if instanceofError e then (Inl e, w')
                     else (Inl (Error ''Failed to upload image''), w')
          | Inr imageUrl \<Rightarrow> (Inr imageUrl, w'))))"

section \<open>HTTP client wrapper\<close>

definition getAuthToken :: "world \<Rightarrow> string option" where
  "getAuthToken w = localStorage w ''authToken''"

text \<open>
  \<^verbatim>\<open>createHeaders(additionalHeaders = {}, isFormData = false)\<close>. The token is attached
  when \<^verbatim>\<open>if (token)\<close> passes: when it is stored and is not the empty string.
\<close>

definition createHeaders :: "(string \<rightharpoonup> string) option \<Rightarrow> bool \<Rightarrow> world \<Rightarrow> (string \<rightharpoonup> string)" where
  "createHeaders additionalHeaders isFormData w =
     (let hs0 = (case additionalHeaders of None \<Rightarrow> Map.empty | Some h \<Rightarrow> h);
          hs1 = (if \<not> isFormData then hs0(''Content-Type'' \<mapsto> ''application/json'') else hs0)
      in case getAuthToken w of
           None \<Rightarrow> hs1
         | Some token \<Rightarrow>
             if token \<noteq> [] then hs1(''Authorization'' \<mapsto> ''Bearer '' @ token) else hs1)"

text \<open>
  \<^verbatim>\<open>{ credentials: 'include', headers: createHeaders(...), ...options }\<close>: the spread comes
  last, so every key that \<^verbatim>\<open>options\<close> has replaces the one written before it.
\<close>

definition defaultOptions :: "request_init \<Rightarrow> world \<Rightarrow> request_init" where
  "defaultOptions options w =
     (let isFormData = instanceofFormData (body options);
          created = createHeaders (headers options) isFormData w
      in \<lparr>req_method = req_method options,
          body = body options,
          headers = (case headers options of None \<Rightarrow> Some created | Some h \<Rightarrow> Some h),
          credentials = (case credentials options of None \<Rightarrow> Some ''include'' | Some c \<Rightarrow> Some c)\<rparr>)"

definition apiRequest :: "network \<Rightarrow> string \<Rightarrow> request_init \<Rightarrow> world \<Rightarrow> (err + response) \<times> world" where
  "apiRequest net u options w = fetch net \<lparr>url = u, init = defaultOptions options w\<rparr> w"

text \<open>The options of a call that passes none, and of a call that passes a method and a body.\<close>

definition no_options :: request_init where
  "no_options = \<lparr>req_method = None, body = None, headers = None, credentials = None\<rparr>"

definition method_only :: "string \<Rightarrow> request_init" where
  "method_only m = \<lparr>req_method = Some m, body = None, headers = None, credentials = None\<rparr>"

definition method_body :: "string \<Rightarrow> req_body \<Rightarrow> request_init" where
  "method_body m b = \<lparr>req_method = Some m, body = Some b, headers = None, credentials = None\<rparr>"

section \<open>Resource API modules\<close>

text \<open>Sequencing of steps that may throw: the first error ends the computation.\<close>

definition thenE :: "err + 'a \<Rightarrow> ('a \<Rightarrow> err + 'b) \<Rightarrow> err + 'b" where
  "thenE x f = (case x of Inl e \<Rightarrow> Inl e | Inr v \<Rightarrow> f v)"

text \<open>
  The two continuations that the modules repeat once \<^verbatim>\<open>apiRequest\<close> has settled:
  \<^verbatim>\<open>if (!response.ok) throw new Error(msg); return response.json();\<close> and
  \<^verbatim>\<open>if (!response.ok) throw new Error(msg); const data = await response.json();
  return data.data || [];\<close>
\<close>

definition json_or_throw :: "string \<Rightarrow> err + response \<Rightarrow> err + jsval" where
  "json_or_throw msg settled =
     thenE settled (\<lambda>response. if \<not> ok response then Inl (Error msg) else json response)"

definition data_or_empty :: "string \<Rightarrow> err + response \<Rightarrow> err + jsval" where
  "data_or_empty msg settled =
     thenE (json_or_throw msg settled)
       (\<lambda>data. thenE (getProp data ''data'') (\<lambda>d. Inr (js_or d (JArr []))))"

text \<open>A project or a skill to create or update: a plain object, or a \<^verbatim>\<open>FormData\<close>.\<close>

datatype payload = Plain jsval | Form "(string \<times> form_entry) list"

fun body_of :: "payload \<Rightarrow> req_body" where
  "body_of (Form es) = FormData es"
| "body_of (Plain v) = JsonText v"

subsection \<open>Auth\<close>

definition authAPI_login :: "network \<Rightarrow> string \<Rightarrow> string \<Rightarrow> string \<Rightarrow> world \<Rightarrow> (err + jsval) \<times> world" where
  "authAPI_login net base email password w =
     (let (settled, w1) =
            apiRequest net (base @ ''/auth/login'')
              (method_body ''POST''
                 (JsonText (JObj [(''email'', JStr email), (''password'', JStr password)]))) w
      in case json_or_throw ''Login failed'' settled of
           Inl e \<Rightarrow> (Inl e, w1)
         | Inr data \<Rightarrow>
             (case getProp data ''token'' of
                Inl e \<Rightarrow> (Inl e, w1)
              | Inr token \<Rightarrow>
                  if truthy token
                  then (Inr data,
                        w1\<lparr>localStorage := (localStorage w1)(''authToken'' \<mapsto> js_toString token)\<rparr>)
                  else (Inr data, w1)))"

text \<open>The rejection of the logout request is caught and only logged.\<close>

definition authAPI_logout :: "network \<Rightarrow> string \<Rightarrow> world \<Rightarrow> (err + unit) \<times> world" where
  "authAPI_logout net base w =
     (let w0 = w\<lparr>localStorage := (localStorage w)(''authToken'' := None)\<rparr>;
          (settled, w1) = apiRequest net (base @ ''/auth/logout'') (method_only ''POST'') w0
      in case settled of Inl e \<Rightarrow> (Inr (), w1) | Inr response \<Rightarrow> (Inr (), w1))"

subsection \<open>Projects, skills, messages\<close>

definition projectsAPI_getAll :: "network \<Rightarrow> string \<Rightarrow> world \<Rightarrow> (err + jsval) \<times> world" where
  "projectsAPI_getAll net base w =
     (let (settled, w1) = apiRequest net (base @ ''/portfolio/projects'') no_options w
      in (data_or_empty ''Failed to fetch projects'' settled, w1))"

definition projectsAPI_create :: "network \<Rightarrow> string \<Rightarrow> payload \<Rightarrow> world \<Rightarrow> (err + jsval) \<times> world" where
  "projectsAPI_create net base project w =
     (let (settled, w1) =
            apiRequest net (base @ ''/portfolio/projects'') (method_body ''POST'' (body_of project)) w
      in (json_or_throw ''Failed to create project'' settled, w1))"

definition projectsAPI_update :: "network \<Rightarrow> string \<Rightarrow> string \<Rightarrow> payload \<Rightarrow> world \<Rightarrow> (err + jsval) \<times> world" where
  "projectsAPI_update net base ident project w =
     (let (settled, w1) =
            apiRequest net (base @ ''/portfolio/projects/'' @ ident)
              (method_body ''PUT'' (body_of project)) w
      in (json_or_throw ''Failed to update project'' settled, w1))"

definition projectsAPI_delete :: "network \<Rightarrow> string \<Rightarrow> string \<Rightarrow> world \<Rightarrow> (err + jsval) \<times> world" where
  "projectsAPI_delete net base ident w =
     (let (settled, w1) =
            apiRequest net (base @ ''/portfolio/projects/'' @ ident) (method_only ''DELETE'') w
      in (json_or_throw ''Failed to delete project'' settled, w1))"

definition skillsAPI_getAll :: "network \<Rightarrow> string \<Rightarrow> world \<Rightarrow> (err + jsval) \<times> world" where
  "skillsAPI_getAll net base w =
     (let (settled, w1) = apiRequest net (base @ ''/portfolio/skills'') no_options w
      in (data_or_empty ''Failed to fetch skills'' settled, w1))"

definition skillsAPI_create :: "network \<Rightarrow> string \<Rightarrow> payload \<Rightarrow> world \<Rightarrow> (err + jsval) \<times> world" where
  "skillsAPI_create net base skill w =
     (let (settled, w1) =
            apiRequest net (base @ ''/portfolio/skills'') (method_body ''POST'' (body_of skill)) w
      in (json_or_throw ''Failed to create skill'' settled, w1))"

definition skillsAPI_update :: "network \<Rightarrow> string \<Rightarrow> string \<Rightarrow> payload \<Rightarrow> world \<Rightarrow> (err + jsval) \<times> world" where
  "skillsAPI_update net base ident skill w =
     (let (settled, w1) =
            apiRequest net (base @ ''/portfolio/skills/'' @ ident)
              (method_body ''PUT'' (body_of skill)) w
      in (json_or_throw ''Failed to update skill'' settled, w1))"

definition skillsAPI_delete :: "network \<Rightarrow> string \<Rightarrow> string \<Rightarrow> world \<Rightarrow> (err + jsval) \<times> world" where
  "skillsAPI_delete net base ident w =
     (let (settled, w1) =
            apiRequest net (base @ ''/portfolio/skills/'' @ ident) (method_only ''DELETE'') w
      in (json_or_throw ''Failed to delete skill'' settled, w1))"

definition messagesAPI_getAll :: "network \<Rightarrow> string \<Rightarrow> world \<Rightarrow> (err + jsval) \<times> world" where
  "messagesAPI_getAll net base w =
     (let (settled, w1) = apiRequest net (base @ ''/portfolio/contact'') no_options w
      in (data_or_empty ''Failed to fetch messages'' settled, w1))"

subsection \<open>The list calls as promises\<close>

text \<open>
  A call of an async function runs at once up to its first \<^verbatim>\<open>await\<close>, here
  \<^verbatim>\<open>await apiRequest(...)\<close>: when the call returns its promise, the request has been
  handed to \<^verbatim>\<open>fetch\<close>. A promise is that request together with what the function
  does once the request has settled. It settles with the other requests that are in
  flight by then.
\<close>

type_synonym 'a promise = "request \<times> (err + response \<Rightarrow> err + 'a)"

definition settle :: "network \<Rightarrow> request list \<Rightarrow> 'a promise \<Rightarrow> err + 'a" where
  "settle net others p = snd p (net others (fst p))"

definition projectsAPI_getAll_promise :: "string \<Rightarrow> world \<Rightarrow> jsval promise \<times> world" where
  "projectsAPI_getAll_promise base w =
     (let req = \<lparr>url = base @ ''/portfolio/projects'', init = defaultOptions no_options w\<rparr>
      in ((req, data_or_empty ''Failed to fetch projects''),
          w\<lparr>requests := requests w @ [req]\<rparr>))"

definition skillsAPI_getAll_promise :: "string \<Rightarrow> world \<Rightarrow> jsval promise \<times> world" where
  "skillsAPI_getAll_promise base w =
     (let req = \<lparr>url = base @ ''/portfolio/skills'', init = defaultOptions no_options w\<rparr>
      in ((req, data_or_empty ''Failed to fetch skills''),
          w\<lparr>requests := requests w @ [req]\<rparr>))"

definition messagesAPI_getAll_promise :: "string \<Rightarrow> world \<Rightarrow> jsval promise \<times> world" where
  "messagesAPI_getAll_promise base w =
     (let req = \<lparr>url = base @ ''/portfolio/contact'', init = defaultOptions no_options w\<rparr>
      in ((req, data_or_empty ''Failed to fetch messages''),
          w\<lparr>requests := requests w @ [req]\<rparr>))"

subsection \<open>URL shortener\<close>

record Pagination =
  currentPage :: jsval
  totalPages :: jsval
  totalItems :: jsval
  hasNext :: jsval
  hasPrev :: jsval

record UrlList =
  data :: "jsval list"
  pagination :: Pagination

fun array_or_empty :: "jsval \<Rightarrow> jsval list" where
  "array_or_empty (JArr xs) = xs"
| "array_or_empty _ = []"

text \<open>
  What \<^verbatim>\<open>urlAPI.getAll\<close> makes of the parsed body \<^verbatim>\<open>result\<close>: the branch for the nested
  shape, taken when \<^verbatim>\<open>result.success && result.data\<close> is truthy, and the fallback.
\<close>

definition nested_shape :: "int \<Rightarrow> jsval \<Rightarrow> err + UrlList" where
  "nested_shape page result =
     thenE (getProp result ''data'') (\<lambda>d.
     thenE (getProp d ''urls'') (\<lambda>u.
     thenE (getProp d ''pagination'') (\<lambda>p.
       let urlsData = js_or u (JArr []);
           paginationData = js_or p (JObj [])
       in
     thenE (getProp paginationData ''currentPage'') (\<lambda>cp.
     thenE (getProp paginationData ''totalPages'') (\<lambda>tp.
     thenE (getProp paginationData ''totalUrls'') (\<lambda>tu.
     thenE (if truthy tu then Inr tu else getProp urlsData ''length'') (\<lambda>ti.
     thenE (getProp paginationData ''hasNextPage'') (\<lambda>hn.
     thenE (getProp paginationData ''hasPrevPage'') (\<lambda>hp.
       Inr \<lparr>data = array_or_empty urlsData,
            pagination =
              \<lparr>currentPage = js_or cp (JNum page),
               totalPages = js_or tp (JNum 1),
               totalItems = ti,
               hasNext = js_or hn (JBool False),
               hasPrev = js_or hp (JBool False)\<rparr>\<rparr>)))))))))"

definition legacy_shape :: "int \<Rightarrow> jsval \<Rightarrow> UrlList" where
  "legacy_shape page result =
     (let d = array_or_empty result
      in \<lparr>data = d,
          pagination =
            \<lparr>currentPage = JNum page,
             totalPages = JNum 1,
             totalItems = JNum (int (length d)),
             hasNext = JBool False,
             hasPrev = JBool False\<rparr>\<rparr>)"

definition getAll_normalize :: "int \<Rightarrow> jsval \<Rightarrow> err + UrlList" where
  "getAll_normalize page result =
     thenE (getProp result ''success'') (\<lambda>success.
     thenE (if truthy success then getProp result ''data'' else Inr success) (\<lambda>guard.
       if truthy guard then nested_shape page result
       else Inr (legacy_shape page result)))"

definition urlAPI_getAll :: "network \<Rightarrow> string \<Rightarrow> int \<Rightarrow> int \<Rightarrow> world \<Rightarrow> (err + UrlList) \<times> world" where
  "urlAPI_getAll net base page limit w =
     (let (settled, w1) =
            apiRequest net
              (base @ ''/url?page='' @ num_to_string page @ ''&limit='' @ num_to_string limit)
              no_options w
      in (thenE (json_or_throw ''Failed to fetch URLs'' settled) (getAll_normalize page), w1))"

definition urlAPI_create :: "network \<Rightarrow> string \<Rightarrow> jsval \<Rightarrow> world \<Rightarrow> (err + jsval) \<times> world" where
  "urlAPI_create net base u w =
     (let (settled, w1) = apiRequest net (base @ ''/url'') (method_body ''POST'' (JsonText u)) w
      in (json_or_throw ''Failed to create short URL'' settled, w1))"

definition urlAPI_update :: "network \<Rightarrow> string \<Rightarrow> string \<Rightarrow> jsval \<Rightarrow> world \<Rightarrow> (err + jsval) \<times> world" where
  "urlAPI_update net base ident u w =
     (let (settled, w1) =
            apiRequest net (base @ ''/url/'' @ ident) (method_body ''PUT'' (JsonText u)) w
      in (json_or_throw ''Failed to update URL'' settled, w1))"

definition urlAPI_delete :: "network \<Rightarrow> string \<Rightarrow> string \<Rightarrow> world \<Rightarrow> (err + jsval) \<times> world" where
  "urlAPI_delete net base ident w =
     (let (settled, w1) = apiRequest net (base @ ''/url/'' @ ident) (method_only ''DELETE'') w
      in (json_or_throw ''Failed to delete URL'' settled, w1))"

section \<open>Application controller\<close>

text \<open>
  The state of the \<^verbatim>\<open>App\<close> component, with the browser state beside it. The lists of
  projects, skills and messages hold whatever \<^verbatim>\<open>data.data || []\<close> gave.
\<close>

record app =
  isAuthenticated :: bool
  activeSection :: string
  loading :: bool
  projects :: jsval
  skills :: jsval
  messages :: jsval
  urls :: "jsval list"
  urlPagination :: Pagination
  currentUrlPage :: int
  browser :: world

definition emptyPagination :: Pagination where
  "emptyPagination =
     \<lparr>currentPage = JNum 1, totalPages = JNum 1, totalItems = JNum 0,
      hasNext = JBool False, hasPrev = JBool False\<rparr>"

text \<open>The values given to \<^verbatim>\<open>useState\<close>.\<close>

definition initial_app :: "world \<Rightarrow> app" where
  "initial_app w =
     \<lparr>isAuthenticated = False, activeSection = ''overview'', loading = True,
      projects = JArr [], skills = JArr [], messages = JArr [], urls = [],
      urlPagination = emptyPagination, currentUrlPage = 1, browser = w\<rparr>"

definition loadUrlsData :: "network \<Rightarrow> string \<Rightarrow> int \<Rightarrow> app \<Rightarrow> app" where
  "loadUrlsData net base page st =
     (let (r, w1) = urlAPI_getAll net base page 20 (browser st)
      in case r of
           Inr urlsResponse \<Rightarrow>
             st\<lparr>urls := data urlsResponse, urlPagination := pagination urlsResponse, browser := w1\<rparr>
         | Inl e \<Rightarrow>
             st\<lparr>urls := [], urlPagination := emptyPagination, browser := w1\<rparr>)"

text \<open>\<^verbatim>\<open>promise.catch(() => [])\<close>\<close>

fun catch_empty :: "err + jsval \<Rightarrow> jsval" where
  "catch_empty (Inl e) = JArr []"
| "catch_empty (Inr v) = v"

text \<open>
  The array given to \<^verbatim>\<open>Promise.all\<close> is built first: the three calls are made one
  after the other, so the three requests are handed to \<^verbatim>\<open>fetch\<close> in that order before
  any of them has settled. Each promise has its own \<^verbatim>\<open>catch\<close> and settles with the
  other two requests in flight. The URL list is loaded after the three have settled.
  Nothing in the \<^verbatim>\<open>try\<close> block can throw, so its \<^verbatim>\<open>catch\<close> is never reached.
\<close>

definition loadDashboardData :: "network \<Rightarrow> string \<Rightarrow> app \<Rightarrow> app" where
  "loadDashboardData net base st =
     (let w0 = browser st;
          (p1, w1) = projectsAPI_getAll_promise base w0;
          (p2, w2) = skillsAPI_getAll_promise base w1;
          (p3, w3) = messagesAPI_getAll_promise base w2;
          projectsData = catch_empty (settle net (requests w0 @ [fst p2, fst p3]) p1);
          skillsData = catch_empty (settle net (requests w0 @ [fst p1, fst p3]) p2);
          messagesData = catch_empty (settle net (requests w0 @ [fst p1, fst p2]) p3)
      in loadUrlsData net base (currentUrlPage st)
           (st\<lparr>projects := projectsData,
               skills := skillsData,
               messages := messagesData,
               browser := w3\<rparr>))"

definition handleUrlPageChange :: "network \<Rightarrow> string \<Rightarrow> int \<Rightarrow> app \<Rightarrow> app" where
  "handleUrlPageChange net base page st = loadUrlsData net base page (st\<lparr>currentUrlPage := page\<rparr>)"

definition handleLogin :: "network \<Rightarrow> string \<Rightarrow> string \<Rightarrow> string \<Rightarrow> app \<Rightarrow> (err + unit) \<times> app" where
  "handleLogin net base email password st =
     (let (r, w1) = authAPI_login net base email password (browser st)
      in case r of
           Inl e \<Rightarrow> (Inl e, st\<lparr>browser := w1\<rparr>)
         | Inr d \<Rightarrow>
             (Inr (),
              st\<lparr>isAuthenticated := True,
                 browser := w1\<lparr>localStorage := (localStorage w1)(''isAuthenticated'' \<mapsto> ''true'')\<rparr>\<rparr>))"

definition handleLogout :: "network \<Rightarrow> string \<Rightarrow> app \<Rightarrow> app" where
  "handleLogout net base st =
     (let (r, w1) = authAPI_logout net base (browser st);
          w2 = (case r of Inl e \<Rightarrow> w1 | Inr u \<Rightarrow> w1)
      in st\<lparr>isAuthenticated := False,
            activeSection := ''overview'',
            browser := w2\<lparr>localStorage := (localStorage w2)(''isAuthenticated'' := None)\<rparr>\<rparr>)"

text \<open>
  A mutation handler: \<^verbatim>\<open>await api(...); await reload();\<close> When the first \<^verbatim>\<open>await\<close>
  throws, the handler rejects and the reload is not reached.
\<close>

definition mutate_then :: "(err + jsval) \<times> world \<Rightarrow> (app \<Rightarrow> app) \<Rightarrow> app \<Rightarrow> (err + unit) \<times> app" where
  "mutate_then call reload st =
     (case call of
        (Inl e, w1) \<Rightarrow> (Inl e, st\<lparr>browser := w1\<rparr>)
      | (Inr v, w1) \<Rightarrow> (Inr (), reload (st\<lparr>browser := w1\<rparr>)))"

definition handleAddProject :: "network \<Rightarrow> string \<Rightarrow> payload \<Rightarrow> app \<Rightarrow> (err + unit) \<times> app" where
  "handleAddProject net base projectData st =
     mutate_then (projectsAPI_create net base projectData (browser st)) (loadDashboardData net base) st"

definition handleUpdateProject :: "network \<Rightarrow> string \<Rightarrow> string \<Rightarrow> payload \<Rightarrow> app \<Rightarrow> (err + unit) \<times> app" where
  "handleUpdateProject net base ident projectData st =
     mutate_then (projectsAPI_update net base ident projectData (browser st))
       (loadDashboardData net base) st"

definition handleDeleteProject :: "network \<Rightarrow> string \<Rightarrow> string \<Rightarrow> app \<Rightarrow> (err + unit) \<times> app" where
  "handleDeleteProject net base ident st =
     mutate_then (projectsAPI_delete net base ident (browser st)) (loadDashboardData net base) st"

definition handleAddSkill :: "network \<Rightarrow> string \<Rightarrow> payload \<Rightarrow> app \<Rightarrow> (err + unit) \<times> app" where
  "handleAddSkill net base skillData st =
     mutate_then (skillsAPI_create net base skillData (browser st)) (loadDashboardData net base) st"

definition handleUpdateSkill :: "network \<Rightarrow> string \<Rightarrow> string \<Rightarrow> payload \<Rightarrow> app \<Rightarrow> (err + unit) \<times> app" where
  "handleUpdateSkill net base ident skillData st =
     mutate_then (skillsAPI_update net base ident skillData (browser st))
       (loadDashboardData net base) st"

definition handleDeleteSkill :: "network \<Rightarrow> string \<Rightarrow> string \<Rightarrow> app \<Rightarrow> (err + unit) \<times> app" where
  "handleDeleteSkill net base ident st =
     mutate_then (skillsAPI_delete net base ident (browser st)) (loadDashboardData net base) st"

definition handleAddUrl :: "network \<Rightarrow> string \<Rightarrow> jsval \<Rightarrow> app \<Rightarrow> (err + unit) \<times> app" where
  "handleAddUrl net base urlData st =
     mutate_then (urlAPI_create net base urlData (browser st))
       (loadUrlsData net base (currentUrlPage st)) st"

definition handleUpdateUrl :: "network \<Rightarrow> string \<Rightarrow> string \<Rightarrow> jsval \<Rightarrow> app \<Rightarrow> (err + unit) \<times> app" where
  "handleUpdateUrl net base ident urlData st =
     mutate_then (urlAPI_update net base ident urlData (browser st))
       (loadUrlsData net base (currentUrlPage st)) st"

definition handleDeleteUrl :: "network \<Rightarrow> string \<Rightarrow> string \<Rightarrow> app \<Rightarrow> (err + unit) \<times> app" where
  "handleDeleteUrl net base ident st =
     mutate_then (urlAPI_delete net base ident (browser st))
       (loadUrlsData net base (currentUrlPage st)) st"

text \<open>\<^verbatim>\<open>onSectionChange={setActiveSection}\<close>\<close>

definition setActiveSection :: "string \<Rightarrow> app \<Rightarrow> app" where
  "setActiveSection name st = st\<lparr>activeSection := name\<rparr>"

subsection \<open>Effects\<close>

text \<open>
  The effect that runs once, on mount, and the effect that depends on
  \<^verbatim>\<open>isAuthenticated\<close>: it runs after a render in which that value has changed.
\<close>

definition mount_effect :: "app \<Rightarrow> app" where
  "mount_effect st =
     st\<lparr>isAuthenticated := (localStorage (browser st) ''isAuthenticated'' = Some ''true''),
        loading := False\<rparr>"

definition auth_effect :: "network \<Rightarrow> string \<Rightarrow> app \<Rightarrow> app" where
  "auth_effect net base st = (if isAuthenticated st then loadDashboardData net base st else st)"

definition after_render :: "network \<Rightarrow> string \<Rightarrow> app \<Rightarrow> app \<Rightarrow> app" where
  "after_render net base before st =
     (if isAuthenticated st \<noteq> isAuthenticated before then auth_effect net base st else st)"

definition start :: "network \<Rightarrow> string \<Rightarrow> world \<Rightarrow> app" where
  "start net base w = after_render net base (initial_app w) (mount_effect (initial_app w))"

definition login_event :: "network \<Rightarrow> string \<Rightarrow> string \<Rightarrow> string \<Rightarrow> app \<Rightarrow> app" where
  "login_event net base email password st =
     after_render net base st (snd (handleLogin net base email password st))"

definition logout_event :: "network \<Rightarrow> string \<Rightarrow> app \<Rightarrow> app" where
  "logout_event net base st = after_render net base st (handleLogout net base st)"

section \<open>Vocabulary for the properties\<close>

text \<open>
  The request a call has handed to \<^verbatim>\<open>fetch\<close> last, one of its headers, and the response
  that the network gave to it.
\<close>

definition built :: "(err + 'a) \<times> world \<Rightarrow> request" where
  "built out = last (requests (snd out))"

definition header :: "request \<Rightarrow> string \<Rightarrow> string option" where
  "header req k = (case headers (init req) of None \<Rightarrow> None | Some h \<Rightarrow> h k)"


text \<open>The request of a call that passes no options, as it is built in the state \<open>w\<close>.\<close>

definition get_request :: "string \<Rightarrow> world \<Rightarrow> request" where
  "get_request u w = \<lparr>url = u, init = defaultOptions no_options w\<rparr>"

definition projects_request :: "string \<Rightarrow> world \<Rightarrow> request" where
  "projects_request base w = get_request (base @ ''/portfolio/projects'') w"

definition skills_request :: "string \<Rightarrow> world \<Rightarrow> request" where
  "skills_request base w = get_request (base @ ''/portfolio/skills'') w"

definition messages_request :: "string \<Rightarrow> world \<Rightarrow> request" where
  "messages_request base w = get_request (base @ ''/portfolio/contact'') w"

definition url_request :: "string \<Rightarrow> int \<Rightarrow> world \<Rightarrow> request" where
  "url_request base page w =
     get_request (base @ ''/url?page='' @ num_to_string page @ ''&limit=20'') w"

text \<open>
  What a list of projects, skills or messages is after its request has settled: the
  \<^verbatim>\<open>data\<close> of the body when the request was answered with a status in 200..299 and a
  JSON body that is not \<^verbatim>\<open>null\<close> and whose \<^verbatim>\<open>data\<close> is truthy; the empty list in every
  other case.
\<close>

definition list_from_response :: "err + response \<Rightarrow> jsval" where
  "list_from_response s =
     (case s of
        Inl e \<Rightarrow> JArr []
      | Inr r \<Rightarrow>
          if \<not> ok r then JArr []
          else (case json_body r of
                  None \<Rightarrow> JArr []
                | Some b \<Rightarrow>
                    (case getProp b ''data'' of
                       Inl e \<Rightarrow> JArr []
                     | Inr d \<Rightarrow> if truthy d then d else JArr [])))"

text \<open>
  What the URL list and its pagination are after the request for a page has settled: the
  normalised body when the request was answered with a status in 200..299 and a JSON body
  that the normalisation accepts; the empty list with the one-page envelope of page 1 in
  every other case.
\<close>

definition urls_from_response :: "int \<Rightarrow> err + response \<Rightarrow> jsval list \<times> Pagination" where
  "urls_from_response page s =
     (case s of
        Inl e \<Rightarrow> ([], emptyPagination)
      | Inr r \<Rightarrow>
          if \<not> ok r then ([], emptyPagination)
          else (case json_body r of
                  None \<Rightarrow> ([], emptyPagination)
                | Some b \<Rightarrow>
                    (case getAll_normalize page b of
                       Inl e \<Rightarrow> ([], emptyPagination)
                     | Inr l \<Rightarrow> (data l, pagination l))))"

text \<open>The method and the address of every request made between two browser states.\<close>

definition issued :: "world \<Rightarrow> world \<Rightarrow> (string option \<times> string) list" where
  "issued w w' = map (\<lambda>r. (req_method (init r), url r)) (drop (length (requests w)) (requests w'))"

definition url_page_request :: "string \<Rightarrow> int \<Rightarrow> string option \<times> string" where
  "url_page_request base page = (None, base @ ''/url?page='' @ num_to_string page @ ''&limit=20'')"

definition dashboard_requests :: "string \<Rightarrow> int \<Rightarrow> (string option \<times> string) list" where
  "dashboard_requests base page =
     [(None, base @ ''/portfolio/projects''), (None, base @ ''/portfolio/skills''),
      (None, base @ ''/portfolio/contact''), url_page_request base page]"

subsection \<open>The nine mutation handlers\<close>

datatype mutation =
    AddProject payload | UpdateProject string payload | DeleteProject string
  | AddSkill payload | UpdateSkill string payload | DeleteSkill string
  | AddUrl jsval | UpdateUrl string jsval | DeleteUrl string

fun handle :: "network \<Rightarrow> string \<Rightarrow> mutation \<Rightarrow> app \<Rightarrow> (err + unit) \<times> app" where
  "handle net base (AddProject p) st = handleAddProject net base p st"
| "handle net base (UpdateProject i p) st = handleUpdateProject net base i p st"
| "handle net base (DeleteProject i) st = handleDeleteProject net base i st"
| "handle net base (AddSkill p) st = handleAddSkill net base p st"
| "handle net base (UpdateSkill i p) st = handleUpdateSkill net base i p st"
| "handle net base (DeleteSkill i) st = handleDeleteSkill net base i st"
| "handle net base (AddUrl u) st = handleAddUrl net base u st"
| "handle net base (UpdateUrl i u) st = handleUpdateUrl net base i u st"
| "handle net base (DeleteUrl i) st = handleDeleteUrl net base i st"

text \<open>The API call that each handler awaits first.\<close>

fun mutation_call :: "network \<Rightarrow> string \<Rightarrow> mutation \<Rightarrow> world \<Rightarrow> (err + jsval) \<times> world" where
  "mutation_call net base (AddProject p) w = projectsAPI_create net base p w"
| "mutation_call net base (UpdateProject i p) w = projectsAPI_update net base i p w"
| "mutation_call net base (DeleteProject i) w = projectsAPI_delete net base i w"
| "mutation_call net base (AddSkill p) w = skillsAPI_create net base p w"
| "mutation_call net base (UpdateSkill i p) w = skillsAPI_update net base i p w"
| "mutation_call net base (DeleteSkill i) w = skillsAPI_delete net base i w"
| "mutation_call net base (AddUrl u) w = urlAPI_create net base u w"
| "mutation_call net base (UpdateUrl i u) w = urlAPI_update net base i u w"
| "mutation_call net base (DeleteUrl i) w = urlAPI_delete net base i w"

fun is_url_mutation :: "mutation \<Rightarrow> bool" where
  "is_url_mutation (AddUrl u) = True"
| "is_url_mutation (UpdateUrl i u) = True"
| "is_url_mutation (DeleteUrl i) = True"
| "is_url_mutation _ = False"


subsection \<open>Concrete servers and browser states\<close>

text \<open>A server that gives every request the same status and body, and a network that is down.\<close>

definition respond_with :: "nat \<Rightarrow> jsval option \<Rightarrow> network" where
  "respond_with code b past req = Inr \<lparr>status = code, json_body = b, text_body = []\<rparr>"

definition unreachable :: network where
  "unreachable past req = Inl TypeError"

definition fresh_world :: world where
  "fresh_world = \<lparr>localStorage = Map.empty, requests = []\<rparr>"

definition token_world :: "string \<Rightarrow> world" where
  "token_world t = \<lparr>localStorage = [''authToken'' \<mapsto> t], requests = []\<rparr>"

definition returning_world :: world where
  "returning_world =
     \<lparr>localStorage = [''authToken'' \<mapsto> ''abc'', ''isAuthenticated'' \<mapsto> ''true''],
      requests = []\<rparr>"

text \<open>
  A server with a paginated URL list of three pages: it answers the login with a token,
  the URL list with the nested shape, and the three other lists with one entry each.
\<close>

definition paged_urls :: jsval where
  "paged_urls =
     JObj [(''success'', JBool True),
           (''data'', JObj [(''urls'', JArr [JObj [(''_id'', JStr ''u1'')]]),
                            (''pagination'', JObj [(''totalPages'', JNum 3),
                                                   (''totalUrls'', JNum 41),
                                                   (''hasNextPage'', JBool True)])])]"

definition list_body :: "string list \<Rightarrow> jsval" where
  "list_body ids = JObj [(''data'', JArr (map (\<lambda>i. JObj [(''_id'', JStr i)]) ids))]"

definition demo_server :: network where
  "demo_server past req =
     (if url req = ''api/auth/login''
      then Inr \<lparr>status = 200, json_body = Some (JObj [(''token'', JStr ''abc'')]), text_body = []\<rparr>
      else if prefix ''api/url'' (url req)
      then Inr \<lparr>status = 200, json_body = Some paged_urls, text_body = []\<rparr>
      else if prefix ''api/portfolio/projects'' (url req)
      then Inr \<lparr>status = 200, json_body = Some (list_body [''p1'']), text_body = []\<rparr>
      else if prefix ''api/portfolio/skills'' (url req)
      then Inr \<lparr>status = 200, json_body = Some (list_body [''s1'']), text_body = []\<rparr>
      else Inr \<lparr>status = 200, json_body = Some (list_body [''m1'']), text_body = []\<rparr>)"

text \<open>
  The same server later: it has two projects and two messages, its skills endpoint is
  down, and it answers the URL list with a bare array of two records.
\<close>

definition later_server :: network where
  "later_server past req =
     (if url req = ''api/auth/login''
      then Inr \<lparr>status = 200, json_body = Some (JObj [(''token'', JStr ''abc'')]), text_body = []\<rparr>
      else if prefix ''api/url'' (url req)
      then Inr \<lparr>status = 200,
                json_body = Some (JArr [JObj [(''_id'', JStr ''u1'')], JObj [(''_id'', JStr ''u2'')]]),
                text_body = []\<rparr>
      else if prefix ''api/portfolio/projects'' (url req)
      then Inr \<lparr>status = 200, json_body = Some (list_body [''p1'', ''p2'']), text_body = []\<rparr>
      else if prefix ''api/portfolio/skills'' (url req)
      then Inr \<lparr>status = 503, json_body = None, text_body = ''Service Unavailable''\<rparr>
      else Inr \<lparr>status = 200, json_body = Some (list_body [''m1'', ''m2'']), text_body = []\<rparr>)"

text \<open>
  A session: the app starts logged out, the user logs in, opens the URL section and its
  page 2, logs out, and logs in again.
\<close>

definition logged_in :: app where
  "logged_in = login_event demo_server ''api'' ''me@example.com'' ''secret''
                 (start demo_server ''api'' fresh_world)"

definition on_page_two :: app where
  "on_page_two = handleUrlPageChange demo_server ''api'' 2 (setActiveSection ''urls'' logged_in)"

definition logged_out :: app where
  "logged_out = logout_event demo_server ''api'' on_page_two"

definition logged_in_again :: app where
  "logged_in_again = login_event demo_server ''api'' ''me@example.com'' ''secret'' logged_out"

section \<open>Auxiliary facts\<close>

lemma apiRequest_result:
  "apiRequest net u options w =
     (net (requests w) \<lparr>url = u, init = defaultOptions options w\<rparr>,
      w\<lparr>requests := requests w @ [\<lparr>url = u, init = defaultOptions options w\<rparr>]\<rparr>)"
  by (simp add: apiRequest_def fetch_def)

lemma built_apiRequest:
  "built (apiRequest net u options w) = \<lparr>url = u, init = defaultOptions options w\<rparr>"
  by (simp add: built_def apiRequest_result)

lemma defaultOptions_requests [simp]:
  "defaultOptions options (w\<lparr>requests := rs\<rparr>) = defaultOptions options w"
  by (simp add: defaultOptions_def createHeaders_def getAuthToken_def)

lemma get_request_requests [simp]: "get_request u (w\<lparr>requests := rs\<rparr>) = get_request u w"
  by (simp add: get_request_def)

lemma get_request_summary [simp]:
  "url (get_request u w) = u" "req_method (init (get_request u w)) = None"
  by (simp_all add: get_request_def defaultOptions_def no_options_def)

lemma issued_refl [simp]: "issued w w = []"
  by (simp add: issued_def)

lemma issued_append [simp]:
  "issued w (w'\<lparr>requests := requests w @ rs\<rparr>) = map (\<lambda>r. (req_method (init r), url r)) rs"
  by (simp add: issued_def)

lemma num_to_string_20 [simp]: "num_to_string 20 = ''20''"
  by code_simp

lemma num_to_string_1: "num_to_string 1 = ''1''"
  by code_simp

lemma num_to_string_2: "num_to_string 2 = ''2''"
  by code_simp

subsection \<open>Errors of the property reads\<close>









subsection \<open>The list calls and their promises\<close>

lemma projectsAPI_getAll_awaited:
  "projectsAPI_getAll net base w =
     (settle net (requests w) (fst (projectsAPI_getAll_promise base w)),
      snd (projectsAPI_getAll_promise base w))"
  by (simp add: projectsAPI_getAll_def projectsAPI_getAll_promise_def apiRequest_result
      settle_def Let_def)

lemma skillsAPI_getAll_awaited:
  "skillsAPI_getAll net base w =
     (settle net (requests w) (fst (skillsAPI_getAll_promise base w)),
      snd (skillsAPI_getAll_promise base w))"
  by (simp add: skillsAPI_getAll_def skillsAPI_getAll_promise_def apiRequest_result
      settle_def Let_def)

lemma messagesAPI_getAll_awaited:
  "messagesAPI_getAll net base w =
     (settle net (requests w) (fst (messagesAPI_getAll_promise base w)),
      snd (messagesAPI_getAll_promise base w))"
  by (simp add: messagesAPI_getAll_def messagesAPI_getAll_promise_def apiRequest_result
      settle_def Let_def)

subsection \<open>What the loaders request and store\<close>

lemma catch_empty_data_or_empty:
  "catch_empty (data_or_empty msg s) = list_from_response s"
  by (auto simp: data_or_empty_def json_or_throw_def thenE_def json_def list_from_response_def
      js_or_def split: sum.splits option.splits)

lemma normalized_urls_from_response:
  "(case thenE (json_or_throw msg s) (getAll_normalize page) of
      Inl e \<Rightarrow> ([], emptyPagination)
    | Inr l \<Rightarrow> (data l, pagination l)) = urls_from_response page s"
  by (auto simp: json_or_throw_def thenE_def json_def urls_from_response_def
      split: sum.splits option.splits)

lemma loadUrlsData_browser:
  "browser (loadUrlsData net base page st) =
     (browser st)\<lparr>requests := requests (browser st) @ [url_request base page (browser st)]\<rparr>"
  by (simp add: loadUrlsData_def urlAPI_getAll_def apiRequest_result url_request_def
      get_request_def split: sum.splits)

lemma loadUrlsData_urls:
  "(urls (loadUrlsData net base page st), urlPagination (loadUrlsData net base page st)) =
     urls_from_response page
       (net (requests (browser st)) (url_request base page (browser st)))"
  unfolding normalized_urls_from_response [symmetric, where msg = "''Failed to fetch URLs''"]
  by (simp add: loadUrlsData_def urlAPI_getAll_def apiRequest_result url_request_def
      get_request_def split: sum.splits)

lemma loadUrlsData_frame:
  "projects (loadUrlsData net base page st) = projects st
   \<and> skills (loadUrlsData net base page st) = skills st
   \<and> messages (loadUrlsData net base page st) = messages st
   \<and> currentUrlPage (loadUrlsData net base page st) = currentUrlPage st
   \<and> isAuthenticated (loadUrlsData net base page st) = isAuthenticated st
   \<and> activeSection (loadUrlsData net base page st) = activeSection st"
  by (simp add: loadUrlsData_def split: prod.splits sum.splits)

lemma loadDashboardData_browser:
  "browser (loadDashboardData net base st) =
     (browser st)\<lparr>requests := requests (browser st) @
        [projects_request base (browser st), skills_request base (browser st),
         messages_request base (browser st),
         url_request base (currentUrlPage st) (browser st)]\<rparr>"
  by (simp add: loadDashboardData_def loadUrlsData_browser projectsAPI_getAll_promise_def
      skillsAPI_getAll_promise_def messagesAPI_getAll_promise_def Let_def
      projects_request_def skills_request_def messages_request_def url_request_def
      get_request_def)

lemma loadDashboardData_issued:
  "issued (browser st) (browser (loadDashboardData net base st))
     = dashboard_requests base (currentUrlPage st)"
  by (simp add: loadDashboardData_browser projects_request_def skills_request_def
      messages_request_def url_request_def get_request_def dashboard_requests_def
      url_page_request_def defaultOptions_def no_options_def)

lemma loadDashboardData_lists:
  "projects (loadDashboardData net base st) =
     list_from_response
       (net (requests (browser st)
               @ [skills_request base (browser st), messages_request base (browser st)])
            (projects_request base (browser st)))
   \<and> skills (loadDashboardData net base st) =
     list_from_response
       (net (requests (browser st)
               @ [projects_request base (browser st), messages_request base (browser st)])
            (skills_request base (browser st)))
   \<and> messages (loadDashboardData net base st) =
     list_from_response
       (net (requests (browser st)
               @ [projects_request base (browser st), skills_request base (browser st)])
            (messages_request base (browser st)))
   \<and> currentUrlPage (loadDashboardData net base st) = currentUrlPage st
   \<and> isAuthenticated (loadDashboardData net base st) = isAuthenticated st
   \<and> activeSection (loadDashboardData net base st) = activeSection st"
  by (simp add: loadDashboardData_def loadUrlsData_frame projectsAPI_getAll_promise_def
      skillsAPI_getAll_promise_def messagesAPI_getAll_promise_def Let_def settle_def
      catch_empty_data_or_empty projects_request_def skills_request_def messages_request_def
      get_request_def)

lemma loadDashboardData_urls:
  "(urls (loadDashboardData net base st), urlPagination (loadDashboardData net base st)) =
     urls_from_response (currentUrlPage st)
       (net (requests (browser st)
               @ [projects_request base (browser st), skills_request base (browser st),
                  messages_request base (browser st)])
            (url_request base (currentUrlPage st) (browser st)))"
  by (simp add: loadDashboardData_def loadUrlsData_urls projectsAPI_getAll_promise_def
      skillsAPI_getAll_promise_def messagesAPI_getAll_promise_def Let_def
      projects_request_def skills_request_def messages_request_def url_request_def
      get_request_def del: prod.inject)

subsection \<open>The shape of a mutation handler\<close>

lemma mutate_then_Inl:
  "fst call = Inl e \<Longrightarrow> mutate_then call reload st = (Inl e, st\<lparr>browser := snd call\<rparr>)"
  by (cases call) (simp add: mutate_then_def)

lemma mutate_then_Inr:
  "fst call = Inr v \<Longrightarrow> mutate_then call reload st = (Inr (), reload (st\<lparr>browser := snd call\<rparr>))"
  by (cases call) (simp add: mutate_then_def)


lemmas handler_defs =
  handleAddProject_def handleUpdateProject_def handleDeleteProject_def
  handleAddSkill_def handleUpdateSkill_def handleDeleteSkill_def
  handleAddUrl_def handleUpdateUrl_def handleDeleteUrl_def

lemma handle_mutate_then:
  "handle net base m st =
     mutate_then (mutation_call net base m (browser st))
       (if is_url_mutation m then loadUrlsData net base (currentUrlPage st)
        else loadDashboardData net base) st"
  by (cases m) (simp_all add: handler_defs)


section \<open>Properties of the upload helper\<close>

text \<open>
  C4. \<^verbatim>\<open>validateImageFile\<close> is a total function of the file (it has no failing branch), and
  it answers \<open>valid = False\<close> exactly when the MIME type does not start with \<^verbatim>\<open>image/\<close> or
  the size is strictly greater than 5 MiB (5 * 1024 * 1024 = 5242880 bytes); a file of
  exactly 5 MiB with an image MIME type is valid.
\<close>

theorem validateImageFile_spec:
  "(valid (validateImageFile f) = False
      \<longleftrightarrow> \<not> prefix ''image/'' (file_type f) \<or> file_size f > 5 * 1024 * 1024)
   \<and> (valid (validateImageFile f) = True
      \<longleftrightarrow> prefix ''image/'' (file_type f) \<and> file_size f \<le> 5 * 1024 * 1024)
   \<and> validateImageFile \<lparr>file_name = n, file_type = ''image/'' @ t, file_size = 5242880\<rparr>
       = \<lparr>valid = True, error = None\<rparr>"
  by (auto simp: validateImageFile_def maxSize_def)

theorem validateImageFile_spec_witness:
  "valid (validateImageFile \<lparr>file_name = ''a.png'', file_type = ''image/png'', file_size = 5242880\<rparr>) = True
   \<and> valid (validateImageFile \<lparr>file_name = ''a.png'', file_type = ''image/png'', file_size = 5242881\<rparr>) = False
   \<and> valid (validateImageFile \<lparr>file_name = ''a.txt'', file_type = ''text/plain'', file_size = 3\<rparr>) = False"
  using validateImageFile_spec
    [of "\<lparr>file_name = ''a.png'', file_type = ''image/png'', file_size = 5242880\<rparr>"]
    validateImageFile_spec
    [of "\<lparr>file_name = ''a.png'', file_type = ''image/png'', file_size = 5242881\<rparr>"]
    validateImageFile_spec
    [of "\<lparr>file_name = ''a.txt'', file_type = ''text/plain'', file_size = 3\<rparr>"]
  by simp

text \<open>
  C10. For a file that fails validation (MIME type not starting with \<^verbatim>\<open>image/\<close>, or size
  strictly greater than 5 MiB) \<^verbatim>\<open>uploadImage\<close> throws an \<^verbatim>\<open>Error\<close> whose message is the
  validation message and leaves the browser state, with its list of issued requests, as it
  was. Whenever a call adds a request, the file passed validation; and for a file that
  passes, exactly the upload request is issued.
\<close>

theorem uploadImage_validates_first:
  "(\<not> prefix ''image/'' (file_type f) \<or> file_size f > 5 * 1024 * 1024 \<longrightarrow>
      (\<exists>msg. error (validateImageFile f) = Some msg
           \<and> uploadImage net f w = (Inl (Error msg), w)))
   \<and> (requests (snd (uploadImage net f w)) \<noteq> requests w \<longrightarrow>
        prefix ''image/'' (file_type f) \<and> file_size f \<le> 5 * 1024 * 1024)
   \<and> (prefix ''image/'' (file_type f) \<and> file_size f \<le> 5 * 1024 * 1024 \<longrightarrow>
        requests (snd (uploadImage net f w)) = requests w @ [upload_request f])"
proof (cases "valid (validateImageFile f)")
  case True
  then have ok_file: "prefix ''image/'' (file_type f) \<and> file_size f \<le> 5 * 1024 * 1024"
    by (auto simp: validateImageFile_def maxSize_def split: if_splits)
  have "requests (snd (uploadImage net f w)) = requests w @ [upload_request f]"
    using True
    by (simp add: uploadImage_def fetch_def Let_def split: sum.splits)
  with ok_file show ?thesis by auto
next
  case False
  then have bad: "\<not> prefix ''image/'' (file_type f) \<or> file_size f > 5 * 1024 * 1024"
    by (auto simp: validateImageFile_def maxSize_def split: if_splits)
  have thrown: "\<exists>msg. error (validateImageFile f) = Some msg
           \<and> uploadImage net f w = (Inl (Error msg), w)"
    using False
    by (auto simp: uploadImage_def validateImageFile_def newError_def Let_def split: if_splits)
  then have "requests (snd (uploadImage net f w)) = requests w" by auto
  with bad thrown show ?thesis by auto
qed

theorem uploadImage_validates_first_witness:
  "uploadImage (\<lambda>past req. Inl TypeError)
       \<lparr>file_name = ''a.txt'', file_type = ''text/plain'', file_size = 3\<rparr>
       \<lparr>localStorage = Map.empty, requests = []\<rparr>
     = (Inl (Error ''File must be an image''), \<lparr>localStorage = Map.empty, requests = []\<rparr>)
   \<and> uploadImage (\<lambda>past req. Inl TypeError)
       \<lparr>file_name = ''big.png'', file_type = ''image/png'', file_size = 5242881\<rparr>
       \<lparr>localStorage = Map.empty, requests = []\<rparr>
     = (Inl (Error ''File size must be less than 5MB''), \<lparr>localStorage = Map.empty, requests = []\<rparr>)
   \<and> requests (snd (uploadImage (\<lambda>past req. Inl TypeError)
       \<lparr>file_name = ''a.png'', file_type = ''image/png'', file_size = 5242880\<rparr>
       \<lparr>localStorage = Map.empty, requests = []\<rparr>))
     = [upload_request \<lparr>file_name = ''a.png'', file_type = ''image/png'', file_size = 5242880\<rparr>]"
  using uploadImage_validates_first
    [of "\<lparr>file_name = ''a.txt'', file_type = ''text/plain'', file_size = 3\<rparr>"
        "\<lambda>past req. Inl TypeError" "\<lparr>localStorage = Map.empty, requests = []\<rparr>"]
    uploadImage_validates_first
    [of "\<lparr>file_name = ''big.png'', file_type = ''image/png'', file_size = 5242881\<rparr>"
        "\<lambda>past req. Inl TypeError" "\<lparr>localStorage = Map.empty, requests = []\<rparr>"]
    uploadImage_validates_first
    [of "\<lparr>file_name = ''a.png'', file_type = ''image/png'', file_size = 5242880\<rparr>"
        "\<lambda>past req. Inl TypeError" "\<lparr>localStorage = Map.empty, requests = []\<rparr>"]
  by (simp add: validateImageFile_def maxSize_def)

section \<open>Properties of the URL list normalisation\<close>

text \<open>
  Four of the five pagination fields are defined whenever \<^verbatim>\<open>urlAPI.getAll\<close> returns: each
  is either a truthy value of the body or its default.
\<close>

lemma js_or_defined: "b \<noteq> JUndefined \<Longrightarrow> js_or a b \<noteq> JUndefined"
  by (cases a) (simp_all add: js_or_def)

lemma nested_shape_defined:
  "nested_shape page result = Inr r \<Longrightarrow>
     currentPage (pagination r) \<noteq> JUndefined \<and> totalPages (pagination r) \<noteq> JUndefined
     \<and> hasNext (pagination r) \<noteq> JUndefined \<and> hasPrev (pagination r) \<noteq> JUndefined"
  by (auto simp: nested_shape_def thenE_def Let_def js_or_defined split: sum.splits if_splits)

lemma getAll_normalize_defined:
  "getAll_normalize page result = Inr r \<Longrightarrow>
     currentPage (pagination r) \<noteq> JUndefined \<and> totalPages (pagination r) \<noteq> JUndefined
     \<and> hasNext (pagination r) \<noteq> JUndefined \<and> hasPrev (pagination r) \<noteq> JUndefined"
  unfolding getAll_normalize_def
  by (auto simp: thenE_def legacy_shape_def Let_def split: sum.splits if_splits
      dest: nested_shape_defined)

text \<open>
  C1. The claim asks for five defined pagination fields for every body. The code gives
  \<^verbatim>\<open>totalItems: undefined\<close> for the body
  \<^verbatim>\<open>{"success": true, "data": {"urls": {}}}\<close> answered with status 200: \<^verbatim>\<open>urls\<close> is truthy
  and no array, so the list is \<^verbatim>\<open>[]\<close>, but \<^verbatim>\<open>totalItems\<close> is taken from
  \<^verbatim>\<open>urlsData.length\<close>, which an object does not have.
\<close>

theorem getAll_totalItems_undefined:
  "fst (urlAPI_getAll
          (respond_with 200
             (Some (JObj [(''success'', JBool True), (''data'', JObj [(''urls'', JObj [])])])))
          base 1 20 w)
     = Inr \<lparr>data = [],
            pagination = \<lparr>currentPage = JNum 1, totalPages = JNum 1, totalItems = JUndefined,
                          hasNext = JBool False, hasPrev = JBool False\<rparr>\<rparr>"
  by (simp add: urlAPI_getAll_def apiRequest_result respond_with_def json_or_throw_def thenE_def
      ok_def json_def getAll_normalize_def nested_shape_def js_or_def)

text \<open>
  The legacy shape and the fallback behave as described for every body on which the first
  property read does not throw: an array is returned as it is with the synthetic envelope,
  and any other body that is not \<^verbatim>\<open>null\<close> and fails the test
  \<^verbatim>\<open>result.success && result.data\<close> gives the empty list with the same envelope.
\<close>

lemma getAll_normalize_array:
  "getAll_normalize page (JArr xs) =
     Inr \<lparr>data = xs,
          pagination = \<lparr>currentPage = JNum page, totalPages = JNum 1,
                        totalItems = JNum (int (length xs)),
                        hasNext = JBool False, hasPrev = JBool False\<rparr>\<rparr>"
  by (simp add: getAll_normalize_def thenE_def legacy_shape_def)

lemma getAll_normalize_fallback:
  assumes "result \<noteq> JNull" and "result \<noteq> JUndefined" and "\<not> isArray result"
    and "\<not> (\<exists>s d. getProp result ''success'' = Inr s \<and> truthy s
              \<and> getProp result ''data'' = Inr d \<and> truthy d)"
  shows "getAll_normalize page result =
     Inr \<lparr>data = [],
          pagination = \<lparr>currentPage = JNum page, totalPages = JNum 1, totalItems = JNum 0,
                        hasNext = JBool False, hasPrev = JBool False\<rparr>\<rparr>"
  using assms
  by (cases result)
     (auto simp: getAll_normalize_def thenE_def legacy_shape_def split: option.splits)

text \<open>
  C2. The claim asks for the empty list and the synthetic envelope for every body that is
  neither the nested shape nor an array. For the body \<^verbatim>\<open>null\<close> answered with status 200
  the code throws a \<^verbatim>\<open>TypeError\<close>: \<^verbatim>\<open>result.success\<close> is read before the fallback is
  reached.
\<close>

theorem getAll_null_body_throws:
  "fst (urlAPI_getAll (respond_with 200 (Some JNull)) base page limit w) = Inl TypeError"
  by (simp add: urlAPI_getAll_def apiRequest_result respond_with_def json_or_throw_def thenE_def
      ok_def json_def getAll_normalize_def)

section \<open>Properties of the HTTP client wrapper\<close>

text \<open>
  The wrapper is private to the API module. Each of its call sites passes no options, a
  method, or a method and a body: options without a \<^verbatim>\<open>headers\<close> or a \<^verbatim>\<open>credentials\<close>
  entry of their own.
\<close>

lemma call_site_options:
  "headers no_options = None \<and> credentials no_options = None
   \<and> headers (method_only m) = None \<and> credentials (method_only m) = None
   \<and> headers (method_body m b) = None \<and> credentials (method_body m b) = None"
  by (simp add: no_options_def method_only_def method_body_def)

text \<open>
  C3. For every path and every options value that the wrapper is passed, that is for
  options without a \<^verbatim>\<open>headers\<close> or a \<^verbatim>\<open>credentials\<close> entry of their own, the request
  that is handed to \<^verbatim>\<open>fetch\<close> has the path, the method and the body given, includes
  credentials, carries \<^verbatim>\<open>Content-Type: application/json\<close> unless the body is a
  \<^verbatim>\<open>FormData\<close>, in which case it has no \<^verbatim>\<open>Content-Type\<close> header, and carries
  \<^verbatim>\<open>Authorization: Bearer <token>\<close> exactly when a token, a non-empty string, is stored
  under \<^verbatim>\<open>authToken\<close>.
\<close>

theorem apiRequest_contract:
  assumes "headers options = None" and "credentials options = None"
  shows "url (built (apiRequest net u options w)) = u
   \<and> req_method (init (built (apiRequest net u options w))) = req_method options
   \<and> body (init (built (apiRequest net u options w))) = body options
   \<and> credentials (init (built (apiRequest net u options w))) = Some ''include''
   \<and> header (built (apiRequest net u options w)) ''Content-Type''
        = (if instanceofFormData (body options) then None else Some ''application/json'')
   \<and> header (built (apiRequest net u options w)) ''Authorization''
        = (case getAuthToken w of
             None \<Rightarrow> None
           | Some t \<Rightarrow> if t = [] then None else Some (''Bearer '' @ t))"
  using assms
  by (auto simp: built_apiRequest header_def defaultOptions_def createHeaders_def Let_def
      split: option.splits)

theorem apiRequest_contract_witness:
  "headers (method_body ''POST'' (JsonText (JObj []))) = None
   \<and> credentials (method_body ''POST'' (JsonText (JObj []))) = None
   \<and> credentials (init (built (apiRequest unreachable ''api/x''
        (method_body ''POST'' (JsonText (JObj []))) (token_world ''abc'')))) = Some ''include''
   \<and> header (built (apiRequest unreachable ''api/x''
        (method_body ''POST'' (JsonText (JObj []))) (token_world ''abc''))) ''Content-Type''
        = Some ''application/json''
   \<and> header (built (apiRequest unreachable ''api/x''
        (method_body ''POST'' (JsonText (JObj []))) (token_world ''abc''))) ''Authorization''
        = Some ''Bearer abc''
   \<and> credentials (init (built (apiRequest unreachable ''api/x''
        (method_body ''POST'' (FormData [(''name'', TextEntry ''x'')])) fresh_world)))
        = Some ''include''
   \<and> header (built (apiRequest unreachable ''api/x''
        (method_body ''POST'' (FormData [(''name'', TextEntry ''x'')])) fresh_world)) ''Content-Type''
        = None
   \<and> header (built (apiRequest unreachable ''api/x''
        (method_body ''POST'' (FormData [(''name'', TextEntry ''x'')])) fresh_world)) ''Authorization''
        = None"
proof -
  have json_headers: "headers (method_body ''POST'' (JsonText (JObj []))) = None"
    and json_credentials: "credentials (method_body ''POST'' (JsonText (JObj []))) = None"
    and form_headers: "headers (method_body ''POST'' (FormData [(''name'', TextEntry ''x'')])) = None"
    and form_credentials:
      "credentials (method_body ''POST'' (FormData [(''name'', TextEntry ''x'')])) = None"
    using call_site_options by blast+
  show ?thesis
    using apiRequest_contract [OF json_headers json_credentials,
            of unreachable "''api/x''" "token_world ''abc''"]
          apiRequest_contract [OF form_headers form_credentials,
            of unreachable "''api/x''" fresh_world]
          json_headers json_credentials
    by (simp add: method_body_def token_world_def fresh_world_def getAuthToken_def)
qed

section \<open>Properties of the resource API modules\<close>

















section \<open>Properties of the session\<close>

text \<open>
  C6. After \<^verbatim>\<open>handleLogout\<close>, whatever the network does with the logout request (also
  when it rejects or answers with an error status), the keys \<^verbatim>\<open>authToken\<close> and
  \<^verbatim>\<open>isAuthenticated\<close> are gone from \<^verbatim>\<open>localStorage\<close>, the authenticated state is false and
  the active section is \<^verbatim>\<open>overview\<close>; the effect that follows the logout changes nothing
  more.
\<close>

theorem handleLogout_clears_session:
  "localStorage (browser (handleLogout net base st)) ''authToken'' = None
   \<and> localStorage (browser (handleLogout net base st)) ''isAuthenticated'' = None
   \<and> isAuthenticated (handleLogout net base st) = False
   \<and> activeSection (handleLogout net base st) = ''overview''
   \<and> logout_event net base st = handleLogout net base st"
  by (simp add: handleLogout_def authAPI_logout_def apiRequest_result Let_def logout_event_def
      after_render_def auth_effect_def split: sum.splits)

theorem handleLogout_clears_session_witness:
  "localStorage (browser (handleLogout unreachable ''api'' on_page_two)) ''authToken'' = None
   \<and> localStorage (browser (handleLogout unreachable ''api'' on_page_two)) ''isAuthenticated'' = None
   \<and> isAuthenticated (handleLogout unreachable ''api'' on_page_two) = False
   \<and> activeSection (handleLogout unreachable ''api'' on_page_two) = ''overview''
   \<and> localStorage (browser on_page_two) ''authToken'' = Some ''abc''
   \<and> localStorage (browser on_page_two) ''isAuthenticated'' = Some ''true''
   \<and> isAuthenticated on_page_two = True
   \<and> activeSection on_page_two = ''urls''"
proof -
  have before: "localStorage (browser on_page_two) ''authToken'' = Some ''abc''
    \<and> localStorage (browser on_page_two) ''isAuthenticated'' = Some ''true''
    \<and> isAuthenticated on_page_two = True
    \<and> activeSection on_page_two = ''urls''"
    by code_simp
  show ?thesis
    using handleLogout_clears_session [of unreachable "''api''" on_page_two] before by simp
qed



section \<open>Properties of the reloads\<close>




section \<open>Properties of the initial load\<close>

text \<open>
  C9, as stated, fails for the page of the URL list. In the session in which the user logs
  in, opens page 2 of the URL list, logs out and logs in again, the authenticated state
  becomes true a second time, and the load that follows requests page 2, not the first
  page: \<^verbatim>\<open>loadDashboardData\<close> passes \<^verbatim>\<open>currentUrlPage\<close>, which the logout does not reset.
\<close>

theorem relogin_page_counterexample:
  "isAuthenticated logged_out = False
   \<and> isAuthenticated logged_in_again = True
   \<and> issued (browser logged_out) (browser logged_in_again)
       = [(Some ''POST'', ''api/auth/login''), (None, ''api/portfolio/projects''),
          (None, ''api/portfolio/skills''), (None, ''api/portfolio/contact''),
          (None, ''api/url?page=2&limit=20'')]"
  by code_simp

subsection \<open>The login and the current URL page\<close>

lemma handleLogin_browser:
  "requests (browser (snd (handleLogin net base email password st)))
     = requests (browser st)
       @ [\<lparr>url = base @ ''/auth/login'',
           init = defaultOptions (method_body ''POST''
                    (JsonText (JObj [(''email'', JStr email), (''password'', JStr password)])))
                    (browser st)\<rparr>]"
  by (auto simp: handleLogin_def authAPI_login_def apiRequest_result Let_def
      split: sum.splits if_splits prod.splits)

lemma handleLogin_frame:
  "currentUrlPage (snd (handleLogin net base email password st)) = currentUrlPage st
   \<and> (\<not> isAuthenticated st \<longrightarrow>
        isAuthenticated (snd (handleLogin net base email password st))
          = (fst (handleLogin net base email password st) = Inr ()))"
  by (auto simp: handleLogin_def authAPI_login_def apiRequest_result Let_def
      split: sum.splits if_splits prod.splits)

lemma auth_effect_page: "currentUrlPage (auth_effect net base st) = currentUrlPage st"
  by (simp add: auth_effect_def loadDashboardData_lists)

lemma after_render_page: "currentUrlPage (after_render net base before st) = currentUrlPage st"
  by (simp add: after_render_def auth_effect_page)

lemma handle_page: "currentUrlPage (snd (handle net base m st)) = currentUrlPage st"
proof (cases "fst (mutation_call net base m (browser st))")
  case (Inl e)
  then show ?thesis
    by (simp add: handle_mutate_then mutate_then_Inl)
next
  case (Inr v)
  then show ?thesis
    by (simp add: handle_mutate_then mutate_then_Inr loadUrlsData_frame loadDashboardData_lists)
qed

lemma login_event_issued:
  assumes "\<not> isAuthenticated st"
  shows "issued (browser st) (browser (login_event net base email password st))
          = (Some ''POST'', base @ ''/auth/login'')
            # (if isAuthenticated (login_event net base email password st)
               then dashboard_requests base (currentUrlPage st) else [])"
proof -
  let ?s1 = "snd (handleLogin net base email password st)"
  note frame = handleLogin_frame [of net base email password st]
  note log = handleLogin_browser [of net base email password st]
  show ?thesis
  proof (cases "isAuthenticated ?s1")
    case True
    have event: "login_event net base email password st = loadDashboardData net base ?s1"
      using True assms by (simp add: login_event_def after_render_def auth_effect_def)
    have "isAuthenticated (loadDashboardData net base ?s1)"
      using True by (simp add: loadDashboardData_lists)
    then show ?thesis
      using frame log
      by (simp add: event loadDashboardData_browser issued_def projects_request_def
          skills_request_def messages_request_def url_request_def dashboard_requests_def
          url_page_request_def defaultOptions_def method_body_def)
  next
    case False
    have event: "login_event net base email password st = ?s1"
      using False assms by (simp add: login_event_def after_render_def)
    show ?thesis
      using False log
      by (simp add: event issued_def defaultOptions_def method_body_def)
  qed
qed

text \<open>
  C9, amended. When the authenticated state has become true, the controller fetches
  projects, skills and messages in parallel: the three requests are handed to \<^verbatim>\<open>fetch\<close>
  before any of them has settled, so each settles with the other two in flight. Each of
  the three lists becomes what its own response gives, and the empty list when its own
  fetch fails (a rejected fetch, a status outside 200..299, a body that is not JSON),
  whatever happens to the other two. Afterwards, as a separate step that follows the
  three, the URL list is fetched at the current URL page of the controller. That page is 1
  when the app starts; it becomes the page the user selects and is kept by every logout,
  login and mutation, so a login after a page has been selected fetches that page.
\<close>

theorem auth_effect_loads_lists:
  "(isAuthenticated st \<longrightarrow>
      requests (browser (auth_effect net base st))
        = requests (browser st)
          @ [projects_request base (browser st), skills_request base (browser st),
             messages_request base (browser st),
             url_request base (currentUrlPage st) (browser st)]
    \<and> projects (auth_effect net base st)
        = list_from_response
            (net (requests (browser st)
                    @ [skills_request base (browser st), messages_request base (browser st)])
                 (projects_request base (browser st)))
    \<and> skills (auth_effect net base st)
        = list_from_response
            (net (requests (browser st)
                    @ [projects_request base (browser st), messages_request base (browser st)])
                 (skills_request base (browser st)))
    \<and> messages (auth_effect net base st)
        = list_from_response
            (net (requests (browser st)
                    @ [projects_request base (browser st), skills_request base (browser st)])
                 (messages_request base (browser st)))
    \<and> (urls (auth_effect net base st), urlPagination (auth_effect net base st))
        = urls_from_response (currentUrlPage st)
            (net (requests (browser st)
                    @ [projects_request base (browser st), skills_request base (browser st),
                       messages_request base (browser st)])
                 (url_request base (currentUrlPage st) (browser st))))
   \<and> list_from_response (Inl e) = JArr []
   \<and> (\<not> ok r \<longrightarrow> list_from_response (Inr r) = JArr [])
   \<and> (ok r \<and> json_body r = None \<longrightarrow> list_from_response (Inr r) = JArr [])
   \<and> (ok r \<and> json_body r = Some b \<and> getProp b ''data'' = Inr d \<and> truthy d \<longrightarrow>
        list_from_response (Inr r) = d)
   \<and> currentUrlPage (start net base w) = 1
   \<and> currentUrlPage (handleUrlPageChange net base page st) = page
   \<and> currentUrlPage (logout_event net base st) = currentUrlPage st
   \<and> currentUrlPage (login_event net base email password st) = currentUrlPage st
   \<and> currentUrlPage (snd (handle net base m st)) = currentUrlPage st
   \<and> (\<not> isAuthenticated st \<longrightarrow>
        issued (browser st) (browser (login_event net base email password st))
          = (Some ''POST'', base @ ''/auth/login'')
            # (if isAuthenticated (login_event net base email password st)
               then dashboard_requests base (currentUrlPage st) else []))
   \<and> (localStorage w ''isAuthenticated'' = Some ''true'' \<longrightarrow>
        issued w (browser (start net base w)) = dashboard_requests base 1)"
proof -
  have load: "isAuthenticated st \<longrightarrow>
      requests (browser (auth_effect net base st))
        = requests (browser st)
          @ [projects_request base (browser st), skills_request base (browser st),
             messages_request base (browser st),
             url_request base (currentUrlPage st) (browser st)]
    \<and> projects (auth_effect net base st)
        = list_from_response
            (net (requests (browser st)
                    @ [skills_request base (browser st), messages_request base (browser st)])
                 (projects_request base (browser st)))
    \<and> skills (auth_effect net base st)
        = list_from_response
            (net (requests (browser st)
                    @ [projects_request base (browser st), messages_request base (browser st)])
                 (skills_request base (browser st)))
    \<and> messages (auth_effect net base st)
        = list_from_response
            (net (requests (browser st)
                    @ [projects_request base (browser st), skills_request base (browser st)])
                 (messages_request base (browser st)))
    \<and> (urls (auth_effect net base st), urlPagination (auth_effect net base st))
        = urls_from_response (currentUrlPage st)
            (net (requests (browser st)
                    @ [projects_request base (browser st), skills_request base (browser st),
                       messages_request base (browser st)])
                 (url_request base (currentUrlPage st) (browser st)))"
    using loadDashboardData_lists [of net base st] loadDashboardData_urls [of net base st]
    by (simp add: auth_effect_def loadDashboardData_browser del: prod.inject)
  have failures: "list_from_response (Inl e) = JArr []
    \<and> (\<not> ok r \<longrightarrow> list_from_response (Inr r) = JArr [])
    \<and> (ok r \<and> json_body r = None \<longrightarrow> list_from_response (Inr r) = JArr [])
    \<and> (ok r \<and> json_body r = Some b \<and> getProp b ''data'' = Inr d \<and> truthy d \<longrightarrow>
        list_from_response (Inr r) = d)"
    by (simp add: list_from_response_def)
  have page_start: "currentUrlPage (start net base w) = 1"
    by (simp add: start_def after_render_page mount_effect_def initial_app_def)
  have page_select: "currentUrlPage (handleUrlPageChange net base page st) = page"
    by (simp add: handleUrlPageChange_def loadUrlsData_frame)
  have page_logout: "currentUrlPage (logout_event net base st) = currentUrlPage st"
    by (simp add: logout_event_def after_render_page handleLogout_def Let_def split: prod.splits)
  have page_login: "currentUrlPage (login_event net base email password st) = currentUrlPage st"
    by (simp add: login_event_def after_render_page handleLogin_frame)
  have returning: "localStorage w ''isAuthenticated'' = Some ''true'' \<longrightarrow>
        issued w (browser (start net base w)) = dashboard_requests base 1"
  proof
    assume on: "localStorage w ''isAuthenticated'' = Some ''true''"
    have "start net base w = loadDashboardData net base (mount_effect (initial_app w))"
      using on
      by (simp add: start_def after_render_def auth_effect_def mount_effect_def initial_app_def)
    moreover have "browser (mount_effect (initial_app w)) = w"
      and "currentUrlPage (mount_effect (initial_app w)) = 1"
      by (simp_all add: mount_effect_def initial_app_def)
    ultimately show "issued w (browser (start net base w)) = dashboard_requests base 1"
      using loadDashboardData_issued [of "mount_effect (initial_app w)" net base] by simp
  qed
  show ?thesis
    using load failures page_start page_select page_logout page_login
      handle_page [of net base m st] login_event_issued [of st net base email password]
      returning
    by blast
qed

theorem auth_effect_loads_lists_witness:
  "isAuthenticated on_page_two
   \<and> projects on_page_two = JArr [JObj [(''_id'', JStr ''p1'')]]
   \<and> skills on_page_two = JArr [JObj [(''_id'', JStr ''s1'')]]
   \<and> messages on_page_two = JArr [JObj [(''_id'', JStr ''m1'')]]
   \<and> issued (browser on_page_two) (browser (auth_effect later_server ''api'' on_page_two))
       = [(None, ''api/portfolio/projects''), (None, ''api/portfolio/skills''),
          (None, ''api/portfolio/contact''), (None, ''api/url?page=2&limit=20'')]
   \<and> projects (auth_effect later_server ''api'' on_page_two)
       = JArr [JObj [(''_id'', JStr ''p1'')], JObj [(''_id'', JStr ''p2'')]]
   \<and> skills (auth_effect later_server ''api'' on_page_two) = JArr []
   \<and> messages (auth_effect later_server ''api'' on_page_two)
       = JArr [JObj [(''_id'', JStr ''m1'')], JObj [(''_id'', JStr ''m2'')]]
   \<and> urls (auth_effect later_server ''api'' on_page_two)
       = [JObj [(''_id'', JStr ''u1'')], JObj [(''_id'', JStr ''u2'')]]
   \<and> \<not> ok \<lparr>status = 503, json_body = None, text_body = ''Service Unavailable''\<rparr>
   \<and> list_from_response
        (Inr \<lparr>status = 503, json_body = None, text_body = ''Service Unavailable''\<rparr>) = JArr []
   \<and> \<not> isAuthenticated logged_out
   \<and> isAuthenticated (login_event later_server ''api'' ''me@example.com'' ''secret'' logged_out)
   \<and> issued (browser logged_out)
        (browser (login_event later_server ''api'' ''me@example.com'' ''secret'' logged_out))
       = [(Some ''POST'', ''api/auth/login''), (None, ''api/portfolio/projects''),
          (None, ''api/portfolio/skills''), (None, ''api/portfolio/contact''),
          (None, ''api/url?page=2&limit=20'')]
   \<and> localStorage returning_world ''isAuthenticated'' = Some ''true''
   \<and> issued returning_world (browser (start demo_server ''api'' returning_world))
       = [(None, ''api/portfolio/projects''), (None, ''api/portfolio/skills''),
          (None, ''api/portfolio/contact''), (None, ''api/url?page=1&limit=20'')]"
proof -
  let ?down = "\<lparr>status = 503, json_body = None, text_body = ''Service Unavailable''\<rparr>"
  have before: "isAuthenticated on_page_two"
    "projects on_page_two = JArr [JObj [(''_id'', JStr ''p1'')]]"
    "skills on_page_two = JArr [JObj [(''_id'', JStr ''s1'')]]"
    "messages on_page_two = JArr [JObj [(''_id'', JStr ''m1'')]]"
    "currentUrlPage on_page_two = 2"
    by code_simp+
  have out: "\<not> isAuthenticated logged_out" "currentUrlPage logged_out = 2"
    by code_simp+
  have back_in:
    "isAuthenticated (login_event later_server ''api'' ''me@example.com'' ''secret'' logged_out)"
    by code_simp
  have flag: "localStorage returning_world ''isAuthenticated'' = Some ''true''"
    by (simp add: returning_world_def)
  have down: "\<not> ok ?down"
    by (simp add: ok_def)
  have answers:
    "later_server past (projects_request ''api'' w)
       = Inr \<lparr>status = 200, json_body = Some (list_body [''p1'', ''p2'']), text_body = []\<rparr>"
    "later_server past (skills_request ''api'' w) = Inr ?down"
    "later_server past (messages_request ''api'' w)
       = Inr \<lparr>status = 200, json_body = Some (list_body [''m1'', ''m2'']), text_body = []\<rparr>"
    "later_server past (url_request ''api'' 2 w)
       = Inr \<lparr>status = 200,
              json_body = Some (JArr [JObj [(''_id'', JStr ''u1'')], JObj [(''_id'', JStr ''u2'')]]),
              text_body = []\<rparr>"
    for past w
    by (simp_all add: later_server_def projects_request_def skills_request_def
        messages_request_def url_request_def num_to_string_2)
  note load = auth_effect_loads_lists
    [where st = on_page_two and net = later_server and base = "''api''" and r = ?down]
  note relogin = auth_effect_loads_lists
    [where st = logged_out and net = later_server and base = "''api''"
       and email = "''me@example.com''" and password = "''secret''"]
  note restart = auth_effect_loads_lists
    [where net = demo_server and base = "''api''" and w = returning_world]
  have "requests (browser (auth_effect later_server ''api'' on_page_two))
        = requests (browser on_page_two)
          @ [projects_request ''api'' (browser on_page_two),
             skills_request ''api'' (browser on_page_two),
             messages_request ''api'' (browser on_page_two),
             url_request ''api'' (currentUrlPage on_page_two) (browser on_page_two)]"
    using load before(1) by blast
  then have r1: "issued (browser on_page_two) (browser (auth_effect later_server ''api'' on_page_two))
       = [(None, ''api/portfolio/projects''), (None, ''api/portfolio/skills''),
          (None, ''api/portfolio/contact''), (None, ''api/url?page=2&limit=20'')]"
    by (simp add: issued_def before projects_request_def skills_request_def
        messages_request_def url_request_def num_to_string_2)
  have "projects (auth_effect later_server ''api'' on_page_two)
        = list_from_response
            (later_server
               (requests (browser on_page_two)
                  @ [skills_request ''api'' (browser on_page_two),
                     messages_request ''api'' (browser on_page_two)])
               (projects_request ''api'' (browser on_page_two)))"
    using load before(1) by blast
  then have r2: "projects (auth_effect later_server ''api'' on_page_two)
       = JArr [JObj [(''_id'', JStr ''p1'')], JObj [(''_id'', JStr ''p2'')]]"
    by (simp add: answers list_from_response_def ok_def list_body_def)
  have "skills (auth_effect later_server ''api'' on_page_two)
        = list_from_response
            (later_server
               (requests (browser on_page_two)
                  @ [projects_request ''api'' (browser on_page_two),
                     messages_request ''api'' (browser on_page_two)])
               (skills_request ''api'' (browser on_page_two)))"
    using load before(1) by blast
  moreover have r_down: "list_from_response (Inr ?down) = JArr []"
    using load down by blast
  ultimately have r3: "skills (auth_effect later_server ''api'' on_page_two) = JArr []"
    by (simp add: answers)
  have "messages (auth_effect later_server ''api'' on_page_two)
        = list_from_response
            (later_server
               (requests (browser on_page_two)
                  @ [projects_request ''api'' (browser on_page_two),
                     skills_request ''api'' (browser on_page_two)])
               (messages_request ''api'' (browser on_page_two)))"
    using load before(1) by blast
  then have r4: "messages (auth_effect later_server ''api'' on_page_two)
       = JArr [JObj [(''_id'', JStr ''m1'')], JObj [(''_id'', JStr ''m2'')]]"
    by (simp add: answers list_from_response_def ok_def list_body_def)
  have "(urls (auth_effect later_server ''api'' on_page_two),
         urlPagination (auth_effect later_server ''api'' on_page_two))
        = urls_from_response (currentUrlPage on_page_two)
            (later_server
               (requests (browser on_page_two)
                  @ [projects_request ''api'' (browser on_page_two),
                     skills_request ''api'' (browser on_page_two),
                     messages_request ''api'' (browser on_page_two)])
               (url_request ''api'' (currentUrlPage on_page_two) (browser on_page_two)))"
    using load before(1) by blast
  then have r5: "urls (auth_effect later_server ''api'' on_page_two)
       = [JObj [(''_id'', JStr ''u1'')], JObj [(''_id'', JStr ''u2'')]]"
    by (simp add: before answers urls_from_response_def ok_def getAll_normalize_array)
  have "issued (browser logged_out)
          (browser (login_event later_server ''api'' ''me@example.com'' ''secret'' logged_out))
        = (Some ''POST'', ''api'' @ ''/auth/login'')
          # (if isAuthenticated
                 (login_event later_server ''api'' ''me@example.com'' ''secret'' logged_out)
             then dashboard_requests ''api'' (currentUrlPage logged_out) else [])"
    using relogin out(1) by blast
  then have r6: "issued (browser logged_out)
        (browser (login_event later_server ''api'' ''me@example.com'' ''secret'' logged_out))
       = [(Some ''POST'', ''api/auth/login''), (None, ''api/portfolio/projects''),
          (None, ''api/portfolio/skills''), (None, ''api/portfolio/contact''),
          (None, ''api/url?page=2&limit=20'')]"
    using back_in
    by (simp add: out dashboard_requests_def url_page_request_def num_to_string_2)
  have "issued returning_world (browser (start demo_server ''api'' returning_world))
        = dashboard_requests ''api'' 1"
    using restart flag by blast
  then have r7: "issued returning_world (browser (start demo_server ''api'' returning_world))
       = [(None, ''api/portfolio/projects''), (None, ''api/portfolio/skills''),
          (None, ''api/portfolio/contact''), (None, ''api/url?page=1&limit=20'')]"
    by (simp add: dashboard_requests_def url_page_request_def num_to_string_1)
  show ?thesis
    using before(1-4) out(1) back_in flag down r_down r1 r2 r3 r4 r5 r6 r7 by blast
qed

end
